theory Spec2Isabelle
  imports Main
begin

section \<open>Operator registry (filter.go, relational\_operator.go, order clause file)\<close>

text \<open>
  \<open>LogicalOperator\<close>, \<open>RelationalOperator\<close> and \<open>OrderDirection\<close> are Go string
  types: any string is a value of each of them, the named constants are particular
  strings.
\<close>

type_synonym LogicalOperator = string
type_synonym RelationalOperator = string
type_synonym OrderDirection = string

definition AndOperator :: LogicalOperator where "AndOperator = ''and''"
definition OrOperator :: LogicalOperator where "OrOperator = ''or''"

definition EqualsOperator :: RelationalOperator where "EqualsOperator = ''eq''"
definition NotEqualsOperator :: RelationalOperator where "NotEqualsOperator = ''ne''"
definition GreaterThanOperator :: RelationalOperator where "GreaterThanOperator = ''gt''"
definition GreaterThanEqualsOperator :: RelationalOperator where
  "GreaterThanEqualsOperator = ''gte''"
definition LowerThanOperator :: RelationalOperator where "LowerThanOperator = ''lt''"
definition LowerThanEqualsOperator :: RelationalOperator where
  "LowerThanEqualsOperator = ''lte''"
definition LikeOperator :: RelationalOperator where "LikeOperator = ''like''"
definition ILikeOperator :: RelationalOperator where "ILikeOperator = ''ilike''"
definition InOperator :: RelationalOperator where "InOperator = ''in''"

definition OrderAsc :: OrderDirection where "OrderAsc = ''asc''"
definition OrderDesc :: OrderDirection where "OrderDesc = ''desc''"

text \<open>The \<open>switch\<close> of each \<open>Symbol\<close> method, case by case in the source's order.\<close>

definition LogicalOperator_Symbol :: "LogicalOperator \<Rightarrow> string" where
  "LogicalOperator_Symbol o' = (if o' = OrOperator then OrOperator else AndOperator)"

definition RelationalOperator_Symbol :: "RelationalOperator \<Rightarrow> string" where
  "RelationalOperator_Symbol o' =
     (if o' = NotEqualsOperator then ''<>''
      else if o' = GreaterThanOperator then ''>''
      else if o' = GreaterThanEqualsOperator then ''>=''
      else if o' = LowerThanOperator then ''<''
      else if o' = LowerThanEqualsOperator then ''<=''
      else if o' = LikeOperator then ''like''
      else if o' = ILikeOperator then ''ilike''
      else if o' = InOperator then ''in''
      else ''='')"

definition OrderDirection_Symbol :: "OrderDirection \<Rightarrow> string" where
  "OrderDirection_Symbol d = (if d = OrderDesc then OrderDesc else OrderAsc)"

text \<open>
  The initial contents of the package-level registries \<open>logicalOperators\<close> and
  \<open>relationalOperators\<close> (Go maps used as sets; the keys in the order of the literals).
\<close>

definition logicalOperators :: "LogicalOperator list" where
  "logicalOperators = [AndOperator, OrOperator]"

definition relationalOperators :: "RelationalOperator list" where
  "relationalOperators =
     [EqualsOperator, NotEqualsOperator, GreaterThanOperator, GreaterThanEqualsOperator,
      LowerThanOperator, LowerThanEqualsOperator, LikeOperator, ILikeOperator, InOperator]"

section \<open>Request model (filter.go, search\_request.go, order clause file)\<close>

text \<open>
  Go's \<open>int\<close> is modelled as \<open>int\<close>: the code only compares limits and offsets
  (\<open><\<close>, \<open>>\<close>) and prints them, it does no arithmetic on them, so no wrap-around can
  occur. A \<open>*int\<close> is an \<open>int option\<close>, \<open>nil\<close> being \<open>None\<close>.
\<close>

record Filter =
  Filter_Field :: string
  Filter_Op :: RelationalOperator
  Filter_Value :: string

datatype FilterGroup =
  FilterGroup (Group_Op: LogicalOperator) (Group_Filters: "Filter list")
    (Group_Groups: "FilterGroup list")

record OrderClause =
  Order_Field :: string
  Order_Direction :: OrderDirection

record SearchRequest =
  Groups :: "FilterGroup option"
  OrderBy :: "OrderClause list"
  Limit :: "int option"
  Offset :: "int option"

section \<open>Configuration (qparams.go)\<close>

text \<open>
  A Go map is a reference: copying a map value copies the reference, and \<open>clear\<close> and
  \<open>m[k] = v\<close> change the one map every copy refers to. The maps of the package are
  therefore kept in an explicit store, from addresses to the set of keys of the map at
  that address (all maps of the package have the value type \<open>struct{}\<close>, only their key
  sets matter). Fields and variables of map type hold addresses.
\<close>

type_synonym addr = nat
type_synonym store = "addr \<Rightarrow> string set"

text \<open>\<open>clear(m)\<close> and the loop \<open>for _, v := range values { m[v] = struct{}{} }\<close>.\<close>

definition clear :: "addr \<Rightarrow> store \<Rightarrow> store" where
  "clear m st = st(m := {})"

definition put :: "addr \<Rightarrow> string \<Rightarrow> store \<Rightarrow> store" where
  "put m v st = st(m := insert v (st m))"

definition put_all :: "addr \<Rightarrow> string list \<Rightarrow> store \<Rightarrow> store" where
  "put_all m values st = fold (put m) values st"

text \<open>
  The package-level variables. The error handler is a function value of the host; the
  model keeps it abstract (type \<open>'h\<close>).
\<close>

record 'h Defaults =
  defaultQueryParam :: string
  defaultSearchMandatory :: bool
  defaultLogicalOperators :: addr
  defaultRelationalOperators :: addr
  defaultLimit :: "int option"
  defaultErrorHandler :: 'h
  defaultFilterFields :: addr
  defaultOrderFields :: addr

text \<open>
  Package initialisation allocates four maps: the two registries (to which
  \<open>defaultLogicalOperators\<close> and \<open>defaultRelationalOperators\<close> are set, so each default
  is the registry map itself) and the two empty field maps. They get the addresses 0 to 3.
\<close>

definition init_Defaults :: "'h \<Rightarrow> 'h Defaults" where
  "init_Defaults h =
     \<lparr>defaultQueryParam = ''q'', defaultSearchMandatory = True,
      defaultLogicalOperators = 0, defaultRelationalOperators = 1,
      defaultLimit = None, defaultErrorHandler = h,
      defaultFilterFields = 2, defaultOrderFields = 3\<rparr>"

definition init_store :: store where
  "init_store = (\<lambda>_. {})(0 := set logicalOperators, 1 := set relationalOperators)"

definition SetDefaultQueryParam :: "string \<Rightarrow> 'h Defaults \<times> store \<Rightarrow> 'h Defaults \<times> store" where
  "SetDefaultQueryParam v = (\<lambda>(g, st). (g\<lparr>defaultQueryParam := v\<rparr>, st))"

definition SetDefaultSearchMandatory :: "bool \<Rightarrow> 'h Defaults \<times> store \<Rightarrow> 'h Defaults \<times> store" where
  "SetDefaultSearchMandatory v = (\<lambda>(g, st). (g\<lparr>defaultSearchMandatory := v\<rparr>, st))"

definition SetDefaultLogicalOperators ::
  "LogicalOperator list \<Rightarrow> 'h Defaults \<times> store \<Rightarrow> 'h Defaults \<times> store" where
  "SetDefaultLogicalOperators vs =
     (\<lambda>(g, st). (g, put_all (defaultLogicalOperators g) vs (clear (defaultLogicalOperators g) st)))"

definition SetDefaultRelationalOperators ::
  "RelationalOperator list \<Rightarrow> 'h Defaults \<times> store \<Rightarrow> 'h Defaults \<times> store" where
  "SetDefaultRelationalOperators vs =
     (\<lambda>(g, st). (g, put_all (defaultRelationalOperators g) vs
                        (clear (defaultRelationalOperators g) st)))"

definition SetDefaultLimit :: "int \<Rightarrow> 'h Defaults \<times> store \<Rightarrow> 'h Defaults \<times> store" where
  "SetDefaultLimit v =
     (\<lambda>(g, st). (g\<lparr>defaultLimit := (if v < 0 then None else Some v)\<rparr>, st))"

definition SetDefaultErrorHandler :: "'h \<Rightarrow> 'h Defaults \<times> store \<Rightarrow> 'h Defaults \<times> store" where
  "SetDefaultErrorHandler v = (\<lambda>(g, st). (g\<lparr>defaultErrorHandler := v\<rparr>, st))"

definition SetDefaultFilterFields ::
  "string list \<Rightarrow> 'h Defaults \<times> store \<Rightarrow> 'h Defaults \<times> store" where
  "SetDefaultFilterFields vs =
     (\<lambda>(g, st). (g, put_all (defaultFilterFields g) vs (clear (defaultFilterFields g) st)))"

definition SetDefaultOrderFields ::
  "string list \<Rightarrow> 'h Defaults \<times> store \<Rightarrow> 'h Defaults \<times> store" where
  "SetDefaultOrderFields vs =
     (\<lambda>(g, st). (g, put_all (defaultOrderFields g) vs (clear (defaultOrderFields g) st)))"

record 'h Options =
  queryParam :: string
  isSearchMandatory :: bool
  allowedLogicalOperators :: addr
  allowedRelationalOperators :: addr
  limit :: "int option"
  errorHandler :: 'h
  allowedFilterFields :: addr
  allowedOrderFields :: addr

text \<open>
  An \<open>Option\<close> is a closure over \<open>*Options\<close>; the package builds them with the ten
  \<open>With...\<close> constructors only, so the model has one constructor for each, holding the
  captured arguments. \<open>apply_Option\<close> is the body of the closure: it changes the
  \<open>Options\<close> struct and the maps its fields refer to.
\<close>

datatype 'h Option =
    WithQueryParam string
  | WithSearchMandatory bool
  | WithLogicalOperators "LogicalOperator list"
  | WithRelationalOperators "RelationalOperator list"
  | WithLimit int
  | WithErrorHandler 'h
  | WithFilterFields "string list"
  | WithExtraFilterFields "string list"
  | WithOrderFields "string list"
  | WithExtraOrderFields "string list"

fun apply_Option :: "'h Option \<Rightarrow> 'h Options \<times> store \<Rightarrow> 'h Options \<times> store" where
  "apply_Option (WithQueryParam v) (o', st) = (o'\<lparr>queryParam := v\<rparr>, st)"
| "apply_Option (WithSearchMandatory v) (o', st) = (o'\<lparr>isSearchMandatory := v\<rparr>, st)"
| "apply_Option (WithLogicalOperators vs) (o', st) =
     (o', put_all (allowedLogicalOperators o') vs (clear (allowedLogicalOperators o') st))"
| "apply_Option (WithRelationalOperators vs) (o', st) =
     (o', put_all (allowedRelationalOperators o') vs (clear (allowedRelationalOperators o') st))"
| "apply_Option (WithLimit v) (o', st) =
     (o'\<lparr>limit := (if v < 0 then None else Some v)\<rparr>, st)"
| "apply_Option (WithErrorHandler h) (o', st) = (o'\<lparr>errorHandler := h\<rparr>, st)"
| "apply_Option (WithFilterFields fields') (o', st) =
     (o', put_all (allowedFilterFields o') fields' (clear (allowedFilterFields o') st))"
| "apply_Option (WithExtraFilterFields fields') (o', st) =
     (o', put_all (allowedFilterFields o') fields' st)"
| "apply_Option (WithOrderFields fields') (o', st) =
     (o', put_all (allowedOrderFields o') fields' (clear (allowedOrderFields o') st))"
| "apply_Option (WithExtraOrderFields fields') (o', st) =
     (o', put_all (allowedOrderFields o') fields' st)"

text \<open>
  The first part of \<open>NewSearchHandler\<close> (lines 260 to 273): the \<open>Options\<close> literal built
  from the package-level variables, then the options applied in the order given. The
  result is the \<open>Options\<close> the returned middleware captures, and the store afterwards.
\<close>

definition NewSearchHandler ::
  "'h Option list \<Rightarrow> 'h Defaults \<Rightarrow> store \<Rightarrow> 'h Options \<times> store" where
  "NewSearchHandler opts g st =
     fold apply_Option opts
       (\<lparr>queryParam = defaultQueryParam g,
         isSearchMandatory = defaultSearchMandatory g,
         allowedLogicalOperators = defaultLogicalOperators g,
         allowedRelationalOperators = defaultRelationalOperators g,
         limit = defaultLimit g,
         errorHandler = defaultErrorHandler g,
         allowedFilterFields = defaultFilterFields g,
         allowedOrderFields = defaultOrderFields g\<rparr>, st)"

section \<open>Errors\<close>

text \<open>
  The code returns plain Go errors made by \<open>errors.New\<close> and \<open>fmt.Errorf\<close>. The model
  has one constructor for each place an error is made, holding the arguments of the
  format string; \<open>DecodeFailed\<close> stands for an error of the JSON decoder, with its text.
\<close>

datatype error =
    LimitNegative
  | LimitMandatory
  | LimitAboveMaximum int
  | OffsetNegative
  | OrderFieldNotAllowed string
  | LogicalOperatorNotAllowed LogicalOperator
  | FilterFieldNotAllowed string
  | RelationalOperatorNotAllowed RelationalOperator string
  | MissingQueryParameter string
  | DecodeFailed string

text \<open>The verb \<open>%d\<close> on an \<open>int\<close>: decimal digits, with a leading minus sign.\<close>

fun digits :: "nat \<Rightarrow> string" where
  "digits n =
     (if n < 10 then [''0123456789'' ! n]
      else digits (n div 10) @ [''0123456789'' ! (n mod 10)])"

definition decimal :: "int \<Rightarrow> string" where
  "decimal i = (if i < 0 then CHR ''-'' # digits (nat (- i)) else digits (nat i))"

text \<open>
  The text of each error (\<open>err.Error()\<close>), from the format strings of the source. The
  verb \<open>%q\<close> is the standard library's quoting of a string; it is the parameter
  \<open>quote\<close>.
\<close>

fun Error :: "(string \<Rightarrow> string) \<Rightarrow> error \<Rightarrow> string" where
  "Error quote LimitNegative = ''limit must be null or >= 0''"
| "Error quote LimitMandatory = ''limit is mandatory''"
| "Error quote (LimitAboveMaximum m) = ''limit must be between 0 and '' @ decimal m"
| "Error quote OffsetNegative = ''offset must be null or >= 0''"
| "Error quote (OrderFieldNotAllowed f) = ''field '' @ quote f @ '' not allowed in order by''"
| "Error quote (LogicalOperatorNotAllowed op) =
     ''logical operator '' @ quote op @ '' not allowed''"
| "Error quote (FilterFieldNotAllowed f) = ''field '' @ quote f @ '' not allowed in filters''"
| "Error quote (RelationalOperatorNotAllowed op f) =
     ''relational operator '' @ quote op @ '' not allowed for field '' @ quote f"
| "Error quote (MissingQueryParameter p) = ''missing '' @ quote p @ '' query parameter''"
| "Error quote (DecodeFailed msg) = msg"

text \<open>
  The specification names eight error conditions; the code has no such type. Each
  place an error is made is given the condition the specification names for it.
\<close>

datatype condition =
    MissingParameter
  | MalformedPayload
  | InvalidLimit
  | InvalidOffset
  | DisallowedOrderField
  | DisallowedLogicalOperator
  | DisallowedFilterField
  | DisallowedRelationalOperator

fun condition_of :: "error \<Rightarrow> condition" where
  "condition_of LimitNegative = InvalidLimit"
| "condition_of LimitMandatory = InvalidLimit"
| "condition_of (LimitAboveMaximum m) = InvalidLimit"
| "condition_of OffsetNegative = InvalidOffset"
| "condition_of (OrderFieldNotAllowed f) = DisallowedOrderField"
| "condition_of (LogicalOperatorNotAllowed op) = DisallowedLogicalOperator"
| "condition_of (FilterFieldNotAllowed f) = DisallowedFilterField"
| "condition_of (RelationalOperatorNotAllowed op f) = DisallowedRelationalOperator"
| "condition_of (MissingQueryParameter p) = MissingParameter"
| "condition_of (DecodeFailed msg) = MalformedPayload"

section \<open>Validation (qparams.go, validateSearchRequest)\<close>

text \<open>
  A lookup \<open>_, ok := m[k]\<close> asks whether \<open>k\<close> is a key of the map \<open>m\<close> refers to: it is
  membership in the set the store holds at that address (a nil map, which only the
  package's own tests build, reads as a map without keys).

  The loop over \<open>s.OrderBy\<close> (lines 329 to 333).
\<close>

fun validateOrderBy :: "'h Options \<Rightarrow> store \<Rightarrow> OrderClause list \<Rightarrow> error option" where
  "validateOrderBy opts st [] = None"
| "validateOrderBy opts st (c # cs) =
     (if Order_Field c \<notin> st (allowedOrderFields opts)
      then Some (OrderFieldNotAllowed (Order_Field c))
      else validateOrderBy opts st cs)"

text \<open>The loop over \<open>g.Filters\<close> (lines 345 to 353).\<close>

fun validateFilters :: "'h Options \<Rightarrow> store \<Rightarrow> Filter list \<Rightarrow> error option" where
  "validateFilters opts st [] = None"
| "validateFilters opts st (f # fs) =
     (if Filter_Field f \<notin> st (allowedFilterFields opts)
      then Some (FilterFieldNotAllowed (Filter_Field f))
      else if Filter_Op f \<notin> st (allowedRelationalOperators opts)
      then Some (RelationalOperatorNotAllowed (Filter_Op f) (Filter_Field f))
      else validateFilters opts st fs)"

text \<open>
  The recursive closure \<open>validateGroup\<close> (lines 336 to 362) on a \<open>*FilterGroup\<close>, and its
  loop over \<open>g.Groups\<close>, which calls the closure on the address of each subgroup.
\<close>

fun validateGroup :: "'h Options \<Rightarrow> store \<Rightarrow> FilterGroup option \<Rightarrow> error option"
  and validateSubgroups :: "'h Options \<Rightarrow> store \<Rightarrow> FilterGroup list \<Rightarrow> error option"
where
  "validateGroup opts st None = None"
| "validateGroup opts st (Some (FilterGroup op filters groups)) =
     (if op \<notin> st (allowedLogicalOperators opts)
      then Some (LogicalOperatorNotAllowed op)
      else case validateFilters opts st filters of
             Some err \<Rightarrow> Some err
           | None \<Rightarrow> validateSubgroups opts st groups)"
| "validateSubgroups opts st [] = None"
| "validateSubgroups opts st (sg # sgs) =
     (case validateGroup opts st (Some sg) of
        Some err \<Rightarrow> Some err
      | None \<Rightarrow> validateSubgroups opts st sgs)"

text \<open>
  \<open>validateSearchRequest\<close>; the result \<open>None\<close> is the nil error. \<open>the\<close> is applied to a
  pointer only behind the test that it is not nil, as the source dereferences it.
\<close>

definition validateSearchRequest ::
  "SearchRequest \<Rightarrow> 'h Options \<Rightarrow> store \<Rightarrow> error option" where
  "validateSearchRequest s opts st =
     (if Limit s \<noteq> None \<and> the (Limit s) < 0 then Some LimitNegative
      else if limit opts \<noteq> None \<and> Limit s = None then Some LimitMandatory
      else if limit opts \<noteq> None \<and> the (Limit s) > the (limit opts)
      then Some (LimitAboveMaximum (the (limit opts)))
      else if Offset s \<noteq> None \<and> the (Offset s) < 0 then Some OffsetNegative
      else case validateOrderBy opts st (OrderBy s) of
             Some err \<Rightarrow> Some err
           | None \<Rightarrow> validateGroup opts st (Groups s))"

section \<open>Middleware (qparams.go, NewSearchHandler and GetSearchRequest)\<close>

text \<open>
  What the middleware uses of an \<open>*http.Request\<close>: the parsed query (\<open>r.URL.Query()\<close>, a
  \<open>url.Values\<close>, from a key to its list of values) and the values of the request's
  context. A context key is a pair of a type and a value: \<open>contextKey\<close> is the package's
  own unexported key type, every key of another type is a \<open>foreign_key\<close>. A context value
  is an interface value: nil, a \<open>*SearchRequest\<close> (which may be a nil pointer), or a value
  of any other type.
\<close>

datatype ctx_key = contextKey string | foreign_key string

datatype ctx_value =
    nil_value
  | SearchRequest_ptr "SearchRequest option"
  | other_value string

record Request =
  URL_Query :: "string \<rightharpoonup> string list"
  Context :: "ctx_key \<rightharpoonup> ctx_value"

definition searchKey :: ctx_key where
  "searchKey = contextKey ''search''"

text \<open>
  \<open>url.Values.Get\<close> of the standard library: the first value of the key, or the empty
  string when the key has no value.
\<close>

definition Values_Get :: "(string \<rightharpoonup> string list) \<Rightarrow> string \<Rightarrow> string" where
  "Values_Get v key = (case v key of None \<Rightarrow> [] | Some [] \<Rightarrow> [] | Some (x # _) \<Rightarrow> x)"

text \<open>
  The handler the middleware returns (lines 276 to 305) ends in exactly one call: of the
  downstream handler \<open>next.ServeHTTP\<close> with a request, or of \<open>options.errorHandler\<close> with
  the request and an error. The model returns that call. The JSON decoder (with
  \<open>DisallowUnknownFields\<close>) is the parameter \<open>decode\<close>: it gives the decoded
  \<open>SearchRequest\<close> or the text of its error.
\<close>

datatype 'h call =
    next_ServeHTTP Request
  | errorHandler_call 'h Request error

definition ServeHTTP ::
  "(string \<Rightarrow> string + SearchRequest) \<Rightarrow> 'h Options \<Rightarrow> store \<Rightarrow> Request \<Rightarrow> 'h call" where
  "ServeHTTP decode options st r =
     (let s = Values_Get (URL_Query r) (queryParam options) in
      if s = [] then
        (if \<not> isSearchMandatory options then next_ServeHTTP r
         else errorHandler_call (errorHandler options) r
                (MissingQueryParameter (queryParam options)))
      else case decode s of
             Inl msg \<Rightarrow> errorHandler_call (errorHandler options) r (DecodeFailed msg)
           | Inr search \<Rightarrow>
               (case validateSearchRequest search options st of
                  Some err \<Rightarrow> errorHandler_call (errorHandler options) r err
                | None \<Rightarrow>
                    next_ServeHTTP
                      (r\<lparr>Context := (Context r)(searchKey \<mapsto> SearchRequest_ptr (Some search))\<rparr>)))"

text \<open>
  \<open>GetSearchRequest\<close>: the value under \<open>searchKey\<close>, nil when there is none, then the
  type assertion to \<open>*SearchRequest\<close>. The result \<open>None\<close> is the nil pointer.
\<close>

definition GetSearchRequest :: "Request \<Rightarrow> SearchRequest option" where
  "GetSearchRequest r =
     (case Context r searchKey of
        None \<Rightarrow> None
      | Some nil_value \<Rightarrow> None
      | Some (SearchRequest_ptr s) \<Rightarrow> s
      | Some (other_value x) \<Rightarrow> None)"

section \<open>The order of checks, as the specification lists it\<close>

text \<open>
  The specification describes validation as an ordered list of checks, of which the
  first violation is reported. The definitions below follow its words: each gives all
  the violations of one kind, in the order the specification lists the checks, without
  stopping at the first.
\<close>

definition limit_violations :: "SearchRequest \<Rightarrow> 'h Options \<Rightarrow> error list" where
  "limit_violations s opts =
     (case Limit s of None \<Rightarrow> [] | Some l \<Rightarrow> if l < 0 then [LimitNegative] else [])
     @ (case limit opts of
          None \<Rightarrow> []
        | Some m \<Rightarrow>
            (case Limit s of
               None \<Rightarrow> [LimitMandatory]
             | Some l \<Rightarrow> if m < l then [LimitAboveMaximum m] else []))"

definition offset_violations :: "SearchRequest \<Rightarrow> error list" where
  "offset_violations s =
     (case Offset s of None \<Rightarrow> [] | Some k \<Rightarrow> if k < 0 then [OffsetNegative] else [])"

definition order_violations :: "'h Options \<Rightarrow> store \<Rightarrow> OrderClause list \<Rightarrow> error list" where
  "order_violations opts st cs =
     map (\<lambda>c. OrderFieldNotAllowed (Order_Field c))
       (filter (\<lambda>c. Order_Field c \<notin> st (allowedOrderFields opts)) cs)"

definition filter_violations :: "'h Options \<Rightarrow> store \<Rightarrow> Filter \<Rightarrow> error list" where
  "filter_violations opts st f =
     (if Filter_Field f \<notin> st (allowedFilterFields opts)
      then [FilterFieldNotAllowed (Filter_Field f)] else [])
     @ (if Filter_Op f \<notin> st (allowedRelationalOperators opts)
        then [RelationalOperatorNotAllowed (Filter_Op f) (Filter_Field f)] else [])"

fun group_violations :: "'h Options \<Rightarrow> store \<Rightarrow> FilterGroup \<Rightarrow> error list" where
  "group_violations opts st (FilterGroup op filters groups) =
     (if op \<notin> st (allowedLogicalOperators opts) then [LogicalOperatorNotAllowed op] else [])
     @ concat (map (filter_violations opts st) filters)
     @ concat (map (group_violations opts st) groups)"

definition tree_violations :: "'h Options \<Rightarrow> store \<Rightarrow> FilterGroup option \<Rightarrow> error list" where
  "tree_violations opts st root =
     (case root of None \<Rightarrow> [] | Some g \<Rightarrow> group_violations opts st g)"

definition first_violation :: "error list \<Rightarrow> error option" where
  "first_violation es = (case es of [] \<Rightarrow> None | e # _ \<Rightarrow> Some e)"

text \<open>
  The ceiling of a configuration is never negative: \<open>WithLimit\<close> and \<open>SetDefaultLimit\<close>
  store nil for a negative value.
\<close>

definition ceiling_ok :: "int option \<Rightarrow> bool" where
  "ceiling_ok c = (case c of None \<Rightarrow> True | Some m \<Rightarrow> 0 \<le> m)"

section \<open>Symbol lookup\<close>

text \<open>
  C8. Symbol lookup never fails and has the documented defaults: a logical operator
  renders as "and" unless it is "or"; a relational operator outside the nine registered
  ones renders as "="; an order direction renders as "asc" unless it is "desc"; the
  registered values render as their canonical symbols.
\<close>

lemmas operator_consts =
  AndOperator_def OrOperator_def EqualsOperator_def NotEqualsOperator_def
  GreaterThanOperator_def GreaterThanEqualsOperator_def LowerThanOperator_def
  LowerThanEqualsOperator_def LikeOperator_def ILikeOperator_def InOperator_def
  OrderAsc_def OrderDesc_def

theorem Symbol_total_with_defaults:
  "(LogicalOperator_Symbol v = (if v = ''or'' then ''or'' else ''and''))
   \<and> (v \<notin> set relationalOperators \<longrightarrow> RelationalOperator_Symbol v = ''='')
   \<and> (OrderDirection_Symbol v = (if v = ''desc'' then ''desc'' else ''asc''))
   \<and> map RelationalOperator_Symbol relationalOperators =
       [''='', ''<>'', ''>'', ''>='', ''<'', ''<='', ''like'', ''ilike'', ''in'']
   \<and> map LogicalOperator_Symbol logicalOperators = [''and'', ''or'']
   \<and> map OrderDirection_Symbol [OrderAsc, OrderDesc] = [''asc'', ''desc'']"
  by (simp add: LogicalOperator_Symbol_def RelationalOperator_Symbol_def
      OrderDirection_Symbol_def relationalOperators_def logicalOperators_def operator_consts)

theorem Symbol_total_with_defaults_witness:
  "''foo'' \<notin> set relationalOperators
   \<and> LogicalOperator_Symbol ''foo'' = ''and''
   \<and> RelationalOperator_Symbol ''foo'' = ''=''
   \<and> OrderDirection_Symbol ''foo'' = ''asc''"
proof -
  have h: "''foo'' \<notin> set relationalOperators"
    by (simp add: relationalOperators_def operator_consts)
  from Symbol_total_with_defaults [of "''foo''"] h show ?thesis by simp
qed

section \<open>Helper facts\<close>

lemma put_all_eq: "put_all m vs st = st(m := set vs \<union> st m)"
  unfolding put_all_def
proof (induction vs arbitrary: st)
  case Nil
  show ?case by simp
next
  case (Cons v vs)
  have "fold (put m) (v # vs) st = fold (put m) vs (put m v st)" by simp
  also have "\<dots> = (put m v st)(m := set vs \<union> put m v st m)" by (rule Cons.IH)
  also have "\<dots> = st(m := set (v # vs) \<union> st m)" by (simp add: put_def)
  finally show ?case .
qed

lemma first_violation_simps [simp]:
  "first_violation [] = None"
  "first_violation (e # es) = Some e"
  by (simp_all add: first_violation_def)

lemma first_violation_append:
  "first_violation (xs @ ys) =
     (case first_violation xs of Some e \<Rightarrow> Some e | None \<Rightarrow> first_violation ys)"
  by (cases xs) simp_all

lemma validateOrderBy_first:
  "validateOrderBy opts st cs = first_violation (order_violations opts st cs)"
  by (induction cs) (simp_all add: order_violations_def)

lemma validateFilters_first:
  "validateFilters opts st fs = first_violation (concat (map (filter_violations opts st) fs))"
  by (induction fs) (simp_all add: filter_violations_def)

lemma validateGroup_first:
  "validateGroup opts st root = first_violation (tree_violations opts st root)"
  "validateSubgroups opts st gs = first_violation (concat (map (group_violations opts st) gs))"
proof (induction opts st root and opts st gs rule: validateGroup_validateSubgroups.induct)
  case (1 opts st)
  show ?case by (simp add: tree_violations_def)
next
  case (2 opts st op filters groups)
  then show ?case
    by (simp add: tree_violations_def validateFilters_first first_violation_append
        split: option.splits)
next
  case (3 opts st)
  show ?case by simp
next
  case (4 opts st sg sgs)
  then show ?case
    by (simp add: tree_violations_def first_violation_append split: option.splits)
qed

lemma validateOrderBy_fields:
  "map Order_Field cs' = map Order_Field cs \<Longrightarrow>
   validateOrderBy opts st cs' = validateOrderBy opts st cs"
proof (induction cs arbitrary: cs')
  case Nil
  then show ?case by simp
next
  case (Cons c cs)
  from Cons.prems obtain d ds where cs': "cs' = d # ds"
    and d: "Order_Field d = Order_Field c"
    and ds: "map Order_Field ds = map Order_Field cs"
    by (cases cs') auto
  from Cons.IH [OF ds] d show ?case unfolding cs' by simp
qed

section \<open>Validation of the filter tree\<close>

text \<open>
  C2. Validation of the filter tree is depth-first pre-order from the root group, and a
  nil root group is valid. For a group it first checks the logical operator (the error
  names the operator), then for each filter in listed order the field and then the
  relational operator (the error names the operator and the field), then each nested
  group in listed order. The first violation stops validation and is the error
  returned: the result is the first of all the violations of the tree listed in that
  order. In particular a disallowed operator of a nested group is reported when the
  outer group's operator and filters, and the nested groups before it, are valid.
\<close>

theorem validateGroup_preorder:
  "validateGroup opts st root = first_violation (tree_violations opts st root)
   \<and> validateGroup opts st None = None
   \<and> Error quote (LogicalOperatorNotAllowed op) =
       ''logical operator '' @ quote op @ '' not allowed''
   \<and> Error quote (RelationalOperatorNotAllowed rop fld) =
       ''relational operator '' @ quote rop @ '' not allowed for field '' @ quote fld
   \<and> (op \<in> st (allowedLogicalOperators opts)
        \<and> (\<forall>f \<in> set filters. filter_violations opts st f = [])
        \<and> (\<forall>g \<in> set before. group_violations opts st g = [])
        \<and> iop \<notin> st (allowedLogicalOperators opts)
      \<longrightarrow> validateGroup opts st
            (Some (FilterGroup op filters (before @ FilterGroup iop ifilters igroups # after)))
          = Some (LogicalOperatorNotAllowed iop))"
proof -
  have nested: "validateGroup opts st
            (Some (FilterGroup op filters (before @ FilterGroup iop ifilters igroups # after)))
          = Some (LogicalOperatorNotAllowed iop)"
    if a: "op \<in> st (allowedLogicalOperators opts)"
      and b: "\<forall>f \<in> set filters. filter_violations opts st f = []"
      and c: "\<forall>g \<in> set before. group_violations opts st g = []"
      and d: "iop \<notin> st (allowedLogicalOperators opts)"
  proof -
    from b have b': "concat (map (filter_violations opts st) filters) = []" by simp
    from c have c': "concat (map (group_violations opts st) before) = []" by simp
    show ?thesis
      by (simp add: validateGroup_first(1) tree_violations_def a b' c' d)
  qed
  have main: "validateGroup opts st root = first_violation (tree_violations opts st root)"
    by (rule validateGroup_first(1))
  have nil: "validateGroup opts st None = None" by simp
  have m1: "Error quote (LogicalOperatorNotAllowed op) =
       ''logical operator '' @ quote op @ '' not allowed''" by simp
  have m2: "Error quote (RelationalOperatorNotAllowed rop fld) =
       ''relational operator '' @ quote rop @ '' not allowed for field '' @ quote fld"
    by simp
  from main nil m1 m2 nested show ?thesis by blast
qed

theorem validateGroup_preorder_witness:
  "''and'' \<in> ((\<lambda>_. {})(0 := {''and''}, 2 := {''name''}, 1 := {''eq''})) (allowedLogicalOperators 
      \<lparr>queryParam = ''q'', isSearchMandatory = True, allowedLogicalOperators = 0,
       allowedRelationalOperators = 1, limit = None, errorHandler = (),
       allowedFilterFields = 2, allowedOrderFields = 3\<rparr>)
   \<and> validateGroup
      \<lparr>queryParam = ''q'', isSearchMandatory = True, allowedLogicalOperators = 0,
       allowedRelationalOperators = 1, limit = None, errorHandler = (),
       allowedFilterFields = 2, allowedOrderFields = 3\<rparr>
      ((\<lambda>_. {})(0 := {''and''}, 2 := {''name''}, 1 := {''eq''}))
      (Some (FilterGroup ''and''
         [\<lparr>Filter_Field = ''name'', Filter_Op = ''eq'', Filter_Value = ''x''\<rparr>]
         [FilterGroup ''or'' [] []]))
    = Some (LogicalOperatorNotAllowed ''or'')"
  using validateGroup_preorder [of 
      "\<lparr>queryParam = ''q'', isSearchMandatory = True, allowedLogicalOperators = 0,
       allowedRelationalOperators = 1, limit = None, errorHandler = (),
       allowedFilterFields = 2, allowedOrderFields = 3\<rparr>"
      "(\<lambda>_. {})(0 := {''and''}, 2 := {''name''}, 1 := {''eq''})"
      "None" id "''and''" "''eq''" "''name''"
      "[\<lparr>Filter_Field = ''name'', Filter_Op = ''eq'', Filter_Value = ''x''\<rparr>]"
      "[]" "''or''" "[]" "[]" "[]"]
  by (simp add: filter_violations_def)

section \<open>Order of the checks\<close>

text \<open>
  C3. Validation returns success or exactly the first violation encountered, nothing is
  aggregated, and the checks run in a fixed order: the limit checks, then the offset,
  then the order clauses in the order supplied, then the filter tree. The result is the
  first of all the violations of the request listed in that order (none when there is
  no violation), so which violation is reported is determined by the order.
\<close>

theorem validateSearchRequest_first_violation_in_order:
  "validateSearchRequest s opts st =
     first_violation
       (limit_violations s opts
        @ offset_violations s
        @ order_violations opts st (OrderBy s)
        @ tree_violations opts st (Groups s))"
  by (cases "Limit s"; cases "limit opts"; cases "Offset s")
    (simp_all add: validateSearchRequest_def limit_violations_def offset_violations_def
      first_violation_append validateOrderBy_first validateGroup_first
      cong: option.case_cong)

theorem validateSearchRequest_first_violation_in_order_witness:
  "validateSearchRequest
     \<lparr>Groups = Some (FilterGroup ''xor'' [] []),
      OrderBy = [\<lparr>Order_Field = ''id'', Order_Direction = ''asc''\<rparr>],
      Limit = Some 5, Offset = Some (- 1)\<rparr>
     \<lparr>queryParam = ''q'', isSearchMandatory = True, allowedLogicalOperators = 0,
      allowedRelationalOperators = 1, limit = None, errorHandler = (),
      allowedFilterFields = 2, allowedOrderFields = 3\<rparr>
     ((\<lambda>_. {})(0 := {''and''}, 3 := {''name''}))
   = Some OffsetNegative"
  using validateSearchRequest_first_violation_in_order [of
     "\<lparr>Groups = Some (FilterGroup ''xor'' [] []),
      OrderBy = [\<lparr>Order_Field = ''id'', Order_Direction = ''asc''\<rparr>],
      Limit = Some 5, Offset = Some (- 1)\<rparr>"
     "\<lparr>queryParam = ''q'', isSearchMandatory = True, allowedLogicalOperators = 0,
      allowedRelationalOperators = 1, limit = None, errorHandler = (),
      allowedFilterFields = 2, allowedOrderFields = 3\<rparr>"
     "(\<lambda>_. {})(0 := {''and''}, 3 := {''name''})"]
  by (simp add: limit_violations_def offset_violations_def)

section \<open>The direction of an order clause\<close>

text \<open>
  C10. Validation never inspects the direction of an order clause: replacing the order
  clauses of a request by clauses with the same fields in the same order, and any
  directions whatever, does not change the result of \<open>validateSearchRequest\<close>.
\<close>

theorem validateSearchRequest_ignores_direction:
  assumes "map Order_Field cs' = map Order_Field (OrderBy s)"
  shows "validateSearchRequest (s\<lparr>OrderBy := cs'\<rparr>) opts st = validateSearchRequest s opts st"
  using validateOrderBy_fields [OF assms, of opts st]
  by (simp add: validateSearchRequest_def cong: option.case_cong)

theorem validateSearchRequest_ignores_direction_witness:
  "validateSearchRequest
     \<lparr>Groups = None,
      OrderBy = [\<lparr>Order_Field = ''name'', Order_Direction = ''foo''\<rparr>,
                 \<lparr>Order_Field = ''id'', Order_Direction = ''desc''\<rparr>],
      Limit = None, Offset = None\<rparr>
     \<lparr>queryParam = ''q'', isSearchMandatory = True, allowedLogicalOperators = 0,
      allowedRelationalOperators = 1, limit = None, errorHandler = (),
      allowedFilterFields = 2, allowedOrderFields = 3\<rparr>
     ((\<lambda>_. {})(3 := {''name''}))
   = validateSearchRequest
     \<lparr>Groups = None,
      OrderBy = [\<lparr>Order_Field = ''name'', Order_Direction = ''asc''\<rparr>,
                 \<lparr>Order_Field = ''id'', Order_Direction = ''asc''\<rparr>],
      Limit = None, Offset = None\<rparr>
     \<lparr>queryParam = ''q'', isSearchMandatory = True, allowedLogicalOperators = 0,
      allowedRelationalOperators = 1, limit = None, errorHandler = (),
      allowedFilterFields = 2, allowedOrderFields = 3\<rparr>
     ((\<lambda>_. {})(3 := {''name''}))"
proof -
  have h: "map Order_Field
             [\<lparr>Order_Field = ''name'', Order_Direction = ''foo''\<rparr>,
              \<lparr>Order_Field = ''id'', Order_Direction = ''desc''\<rparr>]
           = map Order_Field (OrderBy
              \<lparr>Groups = None,
               OrderBy = [\<lparr>Order_Field = ''name'', Order_Direction = ''asc''\<rparr>,
                          \<lparr>Order_Field = ''id'', Order_Direction = ''asc''\<rparr>],
               Limit = None, Offset = None\<rparr>)"
    by simp
  from validateSearchRequest_ignores_direction [OF h] show ?thesis by simp
qed

section \<open>Pagination\<close>

text \<open>
  The ceiling stays non-negative through \<open>SetDefaultLimit\<close>, \<open>NewSearchHandler\<close> and
  every option; and each part of validation makes errors of its own conditions only.
\<close>

lemma apply_Option_ceiling_ok:
  "ceiling_ok (limit (fst p)) \<Longrightarrow> ceiling_ok (limit (fst (apply_Option x p)))"
  by (cases x; cases p) (simp_all add: ceiling_ok_def)

lemma fold_apply_Option_ceiling_ok:
  "ceiling_ok (limit (fst p)) \<Longrightarrow> ceiling_ok (limit (fst (fold apply_Option xs p)))"
  by (induction xs arbitrary: p) (simp_all add: apply_Option_ceiling_ok)

lemma NewSearchHandler_ceiling_ok:
  "ceiling_ok (defaultLimit g) \<Longrightarrow> ceiling_ok (limit (fst (NewSearchHandler opts g st)))"
  unfolding NewSearchHandler_def by (rule fold_apply_Option_ceiling_ok) simp

lemma SetDefaultLimit_ceiling_ok:
  "ceiling_ok (defaultLimit (fst (SetDefaultLimit v p)))"
  by (cases p) (simp add: SetDefaultLimit_def ceiling_ok_def)

lemma init_Defaults_ceiling_ok: "ceiling_ok (defaultLimit (init_Defaults h))"
  by (simp add: init_Defaults_def ceiling_ok_def)

lemma validateOrderBy_condition:
  "validateOrderBy opts st cs = Some e \<Longrightarrow> condition_of e = DisallowedOrderField"
  by (induction cs) (auto split: if_splits)

lemma validateFilters_condition:
  "validateFilters opts st fs = Some e \<Longrightarrow>
   condition_of e = DisallowedFilterField \<or> condition_of e = DisallowedRelationalOperator"
  by (induction fs) (auto split: if_splits)

lemma validateGroup_condition:
  "validateGroup opts st root = Some e \<Longrightarrow>
   condition_of e = DisallowedLogicalOperator \<or> condition_of e = DisallowedFilterField
   \<or> condition_of e = DisallowedRelationalOperator"
  "validateSubgroups opts st gs = Some e \<Longrightarrow>
   condition_of e = DisallowedLogicalOperator \<or> condition_of e = DisallowedFilterField
   \<or> condition_of e = DisallowedRelationalOperator"
proof (induction opts st root and opts st gs rule: validateGroup_validateSubgroups.induct)
  case (1 opts st)
  then show ?case by simp
next
  case (2 opts st op filters groups)
  then show ?case
    using validateFilters_condition [of opts st filters e]
    by (auto split: if_splits option.splits)
next
  case (3 opts st)
  then show ?case by simp
next
  case (4 opts st sg sgs)
  then show ?case by (auto split: option.splits)
qed

text \<open>
  A request whose limit and offset are both negative is answered with the limit error:
  the offset is looked at only after the limit checks have passed.
\<close>

theorem pagination_offset_counterexample:
  "Offset \<lparr>Groups = None, OrderBy = [], Limit = Some (- 1), Offset = Some (- 1)\<rparr> = Some (- 1)
   \<and> validateSearchRequest
         \<lparr>Groups = None, OrderBy = [], Limit = Some (- 1), Offset = Some (- 1)\<rparr>
         (fst (NewSearchHandler [] (init_Defaults ()) init_store))
         (snd (NewSearchHandler [] (init_Defaults ()) init_store))
       = Some LimitNegative
   \<and> condition_of LimitNegative \<noteq> InvalidOffset"
  by (simp add: validateSearchRequest_def)

text \<open>
  C4 (as amended). A present negative limit gives an InvalidLimit error. When a maximum
  is configured and the request omits the limit, validation fails with an InvalidLimit
  error (limit mandatory). When a maximum is configured (it is never negative:
  \<open>SetDefaultLimit\<close> and \<open>WithLimit\<close> keep it so) and the request's limit exceeds it,
  validation fails with an InvalidLimit error whose text cites the maximum. A present
  negative offset gives an InvalidOffset error when the limit checks find no violation.
  With no maximum configured and no limit in the request, validation gives no
  InvalidLimit error; with no offset in the request it gives no InvalidOffset error.
\<close>

theorem pagination_validation:
  "(Limit s = Some l \<and> l < 0 \<longrightarrow>
      validateSearchRequest s opts st = Some LimitNegative
      \<and> condition_of LimitNegative = InvalidLimit)
   \<and> (limit opts = Some m \<and> Limit s = None \<longrightarrow>
      validateSearchRequest s opts st = Some LimitMandatory
      \<and> condition_of LimitMandatory = InvalidLimit)
   \<and> (limit opts = Some m \<and> ceiling_ok (limit opts) \<and> Limit s = Some l \<and> m < l \<longrightarrow>
      validateSearchRequest s opts st = Some (LimitAboveMaximum m)
      \<and> condition_of (LimitAboveMaximum m) = InvalidLimit
      \<and> Error quote (LimitAboveMaximum m) = ''limit must be between 0 and '' @ decimal m)
   \<and> (ceiling_ok (defaultLimit g) \<longrightarrow> ceiling_ok (limit (fst (NewSearchHandler os g st'))))
   \<and> (limit_violations s opts = [] \<and> Offset s = Some k \<and> k < 0 \<longrightarrow>
      validateSearchRequest s opts st = Some OffsetNegative
      \<and> condition_of OffsetNegative = InvalidOffset)
   \<and> (limit opts = None \<and> Limit s = None \<longrightarrow>
      (\<forall>e. validateSearchRequest s opts st = Some e \<longrightarrow> condition_of e \<noteq> InvalidLimit))
   \<and> (Offset s = None \<longrightarrow>
      (\<forall>e. validateSearchRequest s opts st = Some e \<longrightarrow> condition_of e \<noteq> InvalidOffset))"
proof -
  have c1: "validateSearchRequest s opts st = Some LimitNegative" if "Limit s = Some l" "l < 0"
    using that by (simp add: validateSearchRequest_def)
  have c2: "validateSearchRequest s opts st = Some LimitMandatory"
    if "limit opts = Some m" "Limit s = None"
    using that by (simp add: validateSearchRequest_def)
  have c3: "validateSearchRequest s opts st = Some (LimitAboveMaximum m)"
    if "limit opts = Some m" "ceiling_ok (limit opts)" "Limit s = Some l" "m < l"
    using that by (simp add: validateSearchRequest_def ceiling_ok_def)
  have c4: "ceiling_ok (limit (fst (NewSearchHandler os g st')))" if "ceiling_ok (defaultLimit g)"
    using that by (rule NewSearchHandler_ceiling_ok)
  have c5: "validateSearchRequest s opts st = Some OffsetNegative"
    if "limit_violations s opts = []" "Offset s = Some k" "k < 0"
    using that
    by (cases "Limit s"; cases "limit opts")
      (simp_all add: validateSearchRequest_def limit_violations_def split: if_splits)
  have c6: "condition_of e \<noteq> InvalidLimit"
    if "limit opts = None" "Limit s = None" "validateSearchRequest s opts st = Some e" for e
    using that validateOrderBy_condition [of opts st "OrderBy s" e]
      validateGroup_condition(1) [of opts st "Groups s" e]
    by (auto simp add: validateSearchRequest_def split: if_splits option.splits)
  have c7: "condition_of e \<noteq> InvalidOffset"
    if "Offset s = None" "validateSearchRequest s opts st = Some e" for e
    using that validateOrderBy_condition [of opts st "OrderBy s" e]
      validateGroup_condition(1) [of opts st "Groups s" e]
    by (auto simp add: validateSearchRequest_def split: if_splits option.splits)
  have k: "condition_of LimitNegative = InvalidLimit"
    "condition_of LimitMandatory = InvalidLimit"
    "condition_of (LimitAboveMaximum m) = InvalidLimit"
    "condition_of OffsetNegative = InvalidOffset"
    "Error quote (LimitAboveMaximum m) = ''limit must be between 0 and '' @ decimal m"
    by simp_all
  from c1 c2 c3 c4 c5 c6 c7 k show ?thesis by blast
qed

theorem pagination_validation_witness:
  "validateSearchRequest
     \<lparr>Groups = None, OrderBy = [], Limit = Some (- 5), Offset = None\<rparr>
     (fst (NewSearchHandler [] (init_Defaults ()) init_store)) init_store
   = Some LimitNegative
   \<and> validateSearchRequest
     \<lparr>Groups = None, OrderBy = [], Limit = None, Offset = None\<rparr>
     (fst (NewSearchHandler [WithLimit 10] (init_Defaults ()) init_store)) init_store
   = Some LimitMandatory
   \<and> validateSearchRequest
     \<lparr>Groups = None, OrderBy = [], Limit = Some 1000, Offset = None\<rparr>
     (fst (NewSearchHandler [WithLimit 10] (init_Defaults ()) init_store)) init_store
   = Some (LimitAboveMaximum 10)
   \<and> Error id (LimitAboveMaximum 10) = ''limit must be between 0 and 10''
   \<and> validateSearchRequest
     \<lparr>Groups = None, OrderBy = [], Limit = Some 5, Offset = Some (- 5)\<rparr>
     (fst (NewSearchHandler [WithLimit 10] (init_Defaults ()) init_store)) init_store
   = Some OffsetNegative
   \<and> validateSearchRequest
          \<lparr>Groups = None, OrderBy = [\<lparr>Order_Field = ''id'', Order_Direction = ''asc''\<rparr>],
           Limit = None, Offset = None\<rparr>
          (fst (NewSearchHandler [] (init_Defaults ()) init_store)) init_store
       = Some (OrderFieldNotAllowed ''id'')
   \<and> condition_of (OrderFieldNotAllowed ''id'') \<noteq> InvalidLimit
   \<and> condition_of (OrderFieldNotAllowed ''id'') \<noteq> InvalidOffset"
proof -
  let ?o = "fst (NewSearchHandler [] (init_Defaults ()) init_store)"
  let ?o10 = "fst (NewSearchHandler [WithLimit 10] (init_Defaults ()) init_store)"
  let ?g = "init_Defaults ()"
  have l: "limit ?o = None" "limit ?o10 = Some 10"
    by (simp_all add: NewSearchHandler_def init_Defaults_def)
  have g: "ceiling_ok (defaultLimit ?g)" by (rule init_Defaults_ceiling_ok)
  have d: "decimal 10 = ''10''" by (simp add: decimal_def)
  note t = pagination_validation [where st = init_store and quote = id and g = ?g
      and st' = init_store]
  have ok: "ceiling_ok (limit ?o10)"
    using t [where os = "[WithLimit 10]" and opts = ?o and m = 0 and l = 0 and k = 0
        and s = "\<lparr>Groups = None, OrderBy = [], Limit = None, Offset = None\<rparr>"] g
    by simp
  have a: "validateSearchRequest
     \<lparr>Groups = None, OrderBy = [], Limit = Some (- 5), Offset = None\<rparr> ?o init_store
     = Some LimitNegative"
    using t [where os = "[]" and opts = ?o and m = 0 and l = "- 5" and k = 0
        and s = "\<lparr>Groups = None, OrderBy = [], Limit = Some (- 5), Offset = None\<rparr>"]
    by simp
  have b: "validateSearchRequest
     \<lparr>Groups = None, OrderBy = [], Limit = None, Offset = None\<rparr> ?o10 init_store
     = Some LimitMandatory"
    using t [where os = "[]" and opts = ?o10 and m = 10 and l = 0 and k = 0
        and s = "\<lparr>Groups = None, OrderBy = [], Limit = None, Offset = None\<rparr>"] l
    by simp
  have c: "validateSearchRequest
     \<lparr>Groups = None, OrderBy = [], Limit = Some 1000, Offset = None\<rparr> ?o10 init_store
     = Some (LimitAboveMaximum 10)
     \<and> Error id (LimitAboveMaximum 10) = ''limit must be between 0 and 10''"
    using t [where os = "[]" and opts = ?o10 and m = 10 and l = 1000 and k = 0
        and s = "\<lparr>Groups = None, OrderBy = [], Limit = Some 1000, Offset = None\<rparr>"] l ok d
    by simp
  have v: "limit_violations
      \<lparr>Groups = None, OrderBy = [], Limit = Some 5, Offset = Some (- 5)\<rparr> ?o10 = []"
    by (simp add: limit_violations_def l)
  have e: "validateSearchRequest
     \<lparr>Groups = None, OrderBy = [], Limit = Some 5, Offset = Some (- 5)\<rparr> ?o10 init_store
     = Some OffsetNegative"
    using t [where os = "[]" and opts = ?o10 and m = 10 and l = 5 and k = "- 5"
        and s = "\<lparr>Groups = None, OrderBy = [], Limit = Some 5, Offset = Some (- 5)\<rparr>"] v
    by simp
  have r: "validateSearchRequest
          \<lparr>Groups = None, OrderBy = [\<lparr>Order_Field = ''id'', Order_Direction = ''asc''\<rparr>],
           Limit = None, Offset = None\<rparr> ?o init_store
        = Some (OrderFieldNotAllowed ''id'')"
    by (simp add: validateSearchRequest_def l NewSearchHandler_def init_Defaults_def
        init_store_def)
  have f: "condition_of (OrderFieldNotAllowed ''id'') \<noteq> InvalidLimit
      \<and> condition_of (OrderFieldNotAllowed ''id'') \<noteq> InvalidOffset"
    using t [where os = "[]" and opts = ?o and m = 0 and l = 0 and k = 0
        and s = "\<lparr>Groups = None,
                  OrderBy = [\<lparr>Order_Field = ''id'', Order_Direction = ''asc''\<rparr>],
                  Limit = None, Offset = None\<rparr>"] l r
    by simp
  from a b c e r f show ?thesis by blast
qed

section \<open>Configuration operations\<close>

text \<open>
  No option changes which maps the \<open>Options\<close> refer to; and the two orders of a replace
  and an extend, on any configuration.
\<close>

lemma apply_Option_addrs:
  "allowedLogicalOperators (fst (apply_Option x p)) = allowedLogicalOperators (fst p)"
  "allowedRelationalOperators (fst (apply_Option x p)) = allowedRelationalOperators (fst p)"
  "allowedFilterFields (fst (apply_Option x p)) = allowedFilterFields (fst p)"
  "allowedOrderFields (fst (apply_Option x p)) = allowedOrderFields (fst p)"
  by (cases x; cases p; simp)+

lemma fold_apply_Option_addrs:
  "allowedLogicalOperators (fst (fold apply_Option xs p)) = allowedLogicalOperators (fst p)"
  "allowedRelationalOperators (fst (fold apply_Option xs p)) = allowedRelationalOperators (fst p)"
  "allowedFilterFields (fst (fold apply_Option xs p)) = allowedFilterFields (fst p)"
  "allowedOrderFields (fst (fold apply_Option xs p)) = allowedOrderFields (fst p)"
  by (induction xs arbitrary: p; simp add: apply_Option_addrs)+

lemma replace_then_extend_filter:
  "snd (apply_Option (WithExtraFilterFields ys) (apply_Option (WithFilterFields xs) p))
     (allowedFilterFields
        (fst (apply_Option (WithExtraFilterFields ys) (apply_Option (WithFilterFields xs) p))))
   = set xs \<union> set ys"
  by (cases p) (auto simp add: put_all_eq clear_def)

lemma extend_then_replace_filter:
  "snd (apply_Option (WithFilterFields xs) (apply_Option (WithExtraFilterFields ys) p))
     (allowedFilterFields
        (fst (apply_Option (WithFilterFields xs) (apply_Option (WithExtraFilterFields ys) p))))
   = set xs"
  by (cases p) (auto simp add: put_all_eq clear_def)

lemma replace_then_extend_order:
  "snd (apply_Option (WithExtraOrderFields ys) (apply_Option (WithOrderFields xs) p))
     (allowedOrderFields
        (fst (apply_Option (WithExtraOrderFields ys) (apply_Option (WithOrderFields xs) p))))
   = set xs \<union> set ys"
  by (cases p) (auto simp add: put_all_eq clear_def)

lemma extend_then_replace_order:
  "snd (apply_Option (WithOrderFields xs) (apply_Option (WithExtraOrderFields ys) p))
     (allowedOrderFields
        (fst (apply_Option (WithOrderFields xs) (apply_Option (WithExtraOrderFields ys) p))))
   = set xs"
  by (cases p) (auto simp add: put_all_eq clear_def)

lemma NewSearchHandler_append:
  "NewSearchHandler (pre @ [a, b]) g st = apply_Option b (apply_Option a (NewSearchHandler pre g st))"
  by (simp add: NewSearchHandler_def)

text \<open>
  C5. Configuration operations apply strictly in the order given: after any options
  \<open>pre\<close> and from any initial contents, an extend (\<open>WithExtraFilterFields\<close>,
  \<open>WithExtraOrderFields\<close>) applied after a replace (\<open>WithFilterFields\<close>,
  \<open>WithOrderFields\<close>) leaves the union of the replacing values and the extension, and a
  replace applied after an extend leaves the replacing values only.
\<close>

theorem options_apply_in_order:
  "(let c = NewSearchHandler (pre @ [WithFilterFields xs, WithExtraFilterFields ys]) g st
    in snd c (allowedFilterFields (fst c)) = set xs \<union> set ys)
   \<and> (let c = NewSearchHandler (pre @ [WithExtraFilterFields ys, WithFilterFields xs]) g st
    in snd c (allowedFilterFields (fst c)) = set xs)
   \<and> (let c = NewSearchHandler (pre @ [WithOrderFields xs, WithExtraOrderFields ys]) g st
    in snd c (allowedOrderFields (fst c)) = set xs \<union> set ys)
   \<and> (let c = NewSearchHandler (pre @ [WithExtraOrderFields ys, WithOrderFields xs]) g st
    in snd c (allowedOrderFields (fst c)) = set xs)
   \<and> NewSearchHandler (pre @ post) g st
       = fold apply_Option post (NewSearchHandler pre g st)"
proof -
  have "NewSearchHandler (pre @ post) g st = fold apply_Option post (NewSearchHandler pre g st)"
    by (simp add: NewSearchHandler_def)
  then show ?thesis
    unfolding Let_def NewSearchHandler_append
    by (simp only: replace_then_extend_filter extend_then_replace_filter
        replace_then_extend_order extend_then_replace_order simp_thms)
qed

theorem options_apply_in_order_witness:
  "snd (NewSearchHandler [WithFilterFields [''a'', ''b''], WithExtraFilterFields [''c'']]
          (init_Defaults ()) init_store) 2 = {''a'', ''b'', ''c''}
   \<and> snd (NewSearchHandler [WithExtraFilterFields [''c''], WithFilterFields [''a'', ''b'']]
          (init_Defaults ()) init_store) 2 = {''a'', ''b''}"
proof -
  have a: "allowedFilterFields (fst (NewSearchHandler os (init_Defaults ()) init_store)) = 2"
    for os :: "unit Option list"
    by (simp add: NewSearchHandler_def fold_apply_Option_addrs init_Defaults_def)
  from options_apply_in_order [of "[]" "[''a'', ''b'']" "[''c'']" "init_Defaults ()" init_store "[]"]
  show ?thesis by (auto simp add: Let_def a)
qed

section \<open>The defaults after building a handler\<close>

text \<open>
  C1 says that building a per-endpoint configuration works on a clone of the defaults
  and leaves the default sets as they were. \<open>NewSearchHandler\<close> copies the map
  references, not the maps: the \<open>Options\<close> refer to the default maps themselves. After
  \<open>SetDefaultFilterFields("id")\<close> the default filter fields are \<open>{"id"}\<close>; after
  \<open>NewSearchHandler(WithFilterFields("name"))\<close> they are \<open>{"name"}\<close>.
\<close>

theorem NewSearchHandler_overwrites_defaults:
  "snd (SetDefaultFilterFields [''id''] (init_Defaults (), init_store))
     (defaultFilterFields (fst (SetDefaultFilterFields [''id''] (init_Defaults (), init_store))))
   = {''id''}
   \<and> snd (NewSearchHandler [WithFilterFields [''name'']]
           (fst (SetDefaultFilterFields [''id''] (init_Defaults (), init_store)))
           (snd (SetDefaultFilterFields [''id''] (init_Defaults (), init_store))))
     (defaultFilterFields (fst (SetDefaultFilterFields [''id''] (init_Defaults (), init_store))))
   = {''name''}"
  by (simp add: SetDefaultFilterFields_def NewSearchHandler_def init_Defaults_def
      put_all_eq clear_def)

section \<open>Middleware dispatch\<close>

text \<open>
  C6. When the configured query parameter is absent from the request: if the endpoint is
  not mandatory, the downstream handler is called with the request unchanged, so
  nothing is attached to it (a request that carried no search request still carries
  none); if the endpoint is mandatory, the error handler is called with the
  missing-parameter error and the downstream handler is not called.
\<close>

theorem absent_parameter_dispatch:
  assumes "URL_Query r (queryParam options) = None"
  shows "(\<not> isSearchMandatory options \<longrightarrow>
            ServeHTTP decode options st r = next_ServeHTTP r
            \<and> (Context r searchKey = None \<longrightarrow> GetSearchRequest r = None))
         \<and> (isSearchMandatory options \<longrightarrow>
            ServeHTTP decode options st r =
              errorHandler_call (errorHandler options) r
                (MissingQueryParameter (queryParam options))
            \<and> condition_of (MissingQueryParameter (queryParam options)) = MissingParameter
            \<and> (\<forall>r'. ServeHTTP decode options st r \<noteq> next_ServeHTTP r'))"
  using assms
  by (simp add: ServeHTTP_def Values_Get_def GetSearchRequest_def)

theorem absent_parameter_dispatch_witness:
  "ServeHTTP (\<lambda>_. Inl ''never'')
     (fst (NewSearchHandler [WithSearchMandatory False] (init_Defaults ()) init_store))
     init_store \<lparr>URL_Query = Map.empty, Context = Map.empty\<rparr>
   = next_ServeHTTP \<lparr>URL_Query = Map.empty, Context = Map.empty\<rparr>
   \<and> ServeHTTP (\<lambda>_. Inl ''never'')
     (fst (NewSearchHandler [] (init_Defaults ()) init_store))
     init_store \<lparr>URL_Query = Map.empty, Context = Map.empty\<rparr>
   = errorHandler_call () \<lparr>URL_Query = Map.empty, Context = Map.empty\<rparr>
       (MissingQueryParameter ''q'')"
proof -
  let ?r = "\<lparr>URL_Query = Map.empty, Context = Map.empty\<rparr>"
  let ?o1 = "fst (NewSearchHandler [WithSearchMandatory False] (init_Defaults ()) init_store)"
  let ?o2 = "fst (NewSearchHandler [] (init_Defaults ()) init_store)"
  have h1: "URL_Query ?r (queryParam ?o1) = None" by simp
  have h2: "URL_Query ?r (queryParam ?o2) = None" by simp
  have m1: "\<not> isSearchMandatory ?o1" by (simp add: NewSearchHandler_def)
  have m2: "isSearchMandatory ?o2" "queryParam ?o2 = ''q''" "errorHandler ?o2 = ()"
    by (simp_all add: NewSearchHandler_def init_Defaults_def)
  from absent_parameter_dispatch [OF h1, of "\<lambda>_. Inl ''never''" init_store] m1
    absent_parameter_dispatch [OF h2, of "\<lambda>_. Inl ''never''" init_store] m2
  show ?thesis by simp
qed

text \<open>
  C9. A query parameter that is present with the empty string as its value is handled
  as an absent one: the missing-parameter error when mandatory, the downstream handler
  with the unchanged request otherwise; the payload decoder plays no part in the
  outcome.
\<close>

theorem empty_parameter_is_absent:
  assumes "URL_Query r (queryParam options) = Some ([] # vs)"
  shows "ServeHTTP decode options st r =
           (if isSearchMandatory options
            then errorHandler_call (errorHandler options) r
                   (MissingQueryParameter (queryParam options))
            else next_ServeHTTP r)
         \<and> ServeHTTP decode' options st r = ServeHTTP decode options st r"
  using assms by (simp add: ServeHTTP_def Values_Get_def)

theorem empty_parameter_is_absent_witness:
  "ServeHTTP (\<lambda>_. Inl ''never'')
     (fst (NewSearchHandler [] (init_Defaults ()) init_store))
     init_store \<lparr>URL_Query = [''q'' \<mapsto> [[]]], Context = Map.empty\<rparr>
   = errorHandler_call () \<lparr>URL_Query = [''q'' \<mapsto> [[]]], Context = Map.empty\<rparr>
       (MissingQueryParameter ''q'')"
proof -
  let ?r = "\<lparr>URL_Query = [''q'' \<mapsto> [[]]], Context = Map.empty\<rparr>"
  let ?o = "fst (NewSearchHandler [] (init_Defaults ()) init_store)"
  have m: "isSearchMandatory ?o" "queryParam ?o = ''q''" "errorHandler ?o = ()"
    by (simp_all add: NewSearchHandler_def init_Defaults_def)
  have h: "URL_Query ?r (queryParam ?o) = Some ([] # [])" by (simp add: m)
  from empty_parameter_is_absent [OF h, of "\<lambda>_. Inl ''never''" init_store] m
  show ?thesis by simp
qed

section \<open>Retrieval\<close>

text \<open>
  C7. \<open>GetSearchRequest\<close> always returns: nil when nothing is stored under the reserved
  key, or when what is stored is nil or is not a \<open>*SearchRequest\<close>; otherwise the
  stored pointer. After the middleware has accepted a payload, the request it hands to
  the downstream handler yields the decoded search request.
\<close>

theorem GetSearchRequest_total:
  "(Context r searchKey = None \<longrightarrow> GetSearchRequest r = None)
   \<and> (Context r searchKey = Some nil_value \<longrightarrow> GetSearchRequest r = None)
   \<and> (Context r searchKey = Some (other_value x) \<longrightarrow> GetSearchRequest r = None)
   \<and> (Context r searchKey = Some (SearchRequest_ptr p) \<longrightarrow> GetSearchRequest r = p)
   \<and> (Values_Get (URL_Query r) (queryParam options) \<noteq> []
        \<and> decode (Values_Get (URL_Query r) (queryParam options)) = Inr search
        \<and> validateSearchRequest search options st = None
      \<longrightarrow> (\<exists>r'. ServeHTTP decode options st r = next_ServeHTTP r'
                \<and> GetSearchRequest r' = Some search))"
  by (simp add: GetSearchRequest_def ServeHTTP_def)

theorem GetSearchRequest_total_witness:
  "GetSearchRequest \<lparr>URL_Query = Map.empty, Context = Map.empty\<rparr> = None
   \<and> GetSearchRequest
       \<lparr>URL_Query = Map.empty, Context = [searchKey \<mapsto> other_value ''not a SearchRequest'']\<rparr>
     = None
   \<and> GetSearchRequest
       \<lparr>URL_Query = Map.empty,
        Context = [searchKey \<mapsto> SearchRequest_ptr
          (Some \<lparr>Groups = None, OrderBy = [], Limit = Some 50, Offset = None\<rparr>)]\<rparr>
     = Some \<lparr>Groups = None, OrderBy = [], Limit = Some 50, Offset = None\<rparr>
   \<and> (\<exists>r'. ServeHTTP
          (\<lambda>_. Inr \<lparr>Groups = None, OrderBy = [], Limit = Some 50, Offset = None\<rparr>)
          (fst (NewSearchHandler [] (init_Defaults ()) init_store)) init_store
          \<lparr>URL_Query = [''q'' \<mapsto> [''{\"limit\":50}'']], Context = Map.empty\<rparr>
        = next_ServeHTTP r'
        \<and> GetSearchRequest r'
          = Some \<lparr>Groups = None, OrderBy = [], Limit = Some 50, Offset = None\<rparr>)"
proof -
  let ?o = "fst (NewSearchHandler [] (init_Defaults ()) init_store)"
  let ?s = "\<lparr>Groups = None, OrderBy = [], Limit = Some 50, Offset = None\<rparr>"
  have o: "queryParam ?o = ''q''" "limit ?o = None"
    by (simp_all add: NewSearchHandler_def init_Defaults_def)
  have v: "validateSearchRequest ?s ?o init_store = None"
    by (simp add: validateSearchRequest_def o)
  note t = GetSearchRequest_total [where options = ?o and decode = "\<lambda>_. Inr ?s"
      and search = ?s and st = init_store and x = "''not a SearchRequest''"]
  from t [where r = "\<lparr>URL_Query = Map.empty, Context = Map.empty\<rparr>" and p = None]
    t [where r = "\<lparr>URL_Query = Map.empty,
          Context = [searchKey \<mapsto> other_value ''not a SearchRequest'']\<rparr>" and p = None]
    t [where r = "\<lparr>URL_Query = Map.empty, Context = [searchKey \<mapsto> SearchRequest_ptr (Some ?s)]\<rparr>"
        and p = "Some ?s"]
    t [where r = "\<lparr>URL_Query = [''q'' \<mapsto> [''{\"limit\":50}'']], Context = Map.empty\<rparr>"
        and p = None] o v
  show ?thesis by (simp add: Values_Get_def)
qed

end
